theory Spec2Isabelle
  imports Complex_Main "HOL-Library.Sublist"
begin

section \<open>Python strings\<close>

text \<open>
  A Python \<open>str\<close> is a sequence of Unicode code points: a list of numbers.
  The literals of the program are ASCII, and \<open>py\<close> gives the \<open>str\<close> of one.
  Audio data is a sequence of bytes.

  \<open>str.lower()\<close> is Python's Unicode lower-casing. It is not defined here:
  the functions below take it as an argument, and every general theorem holds
  for whatever function stands in its place.
\<close>

type_synonym str = "nat list"

type_synonym bytes = "nat list"

definition py :: "string \<Rightarrow> str" where
  "py cs = map of_char cs"

text \<open>\<open>needle in haystack\<close> on strings: the needle occurs at some position.\<close>

fun py_in :: "str \<Rightarrow> str \<Rightarrow> bool" where
  "py_in needle [] = (needle = [])"
| "py_in needle (c # cs) = (prefix needle (c # cs) \<or> py_in needle cs)"

text \<open>\<open>s.startswith((p1, p2, ...))\<close> and \<open>s.endswith(suf)\<close>.\<close>

definition startswith :: "str \<Rightarrow> str list \<Rightarrow> bool" where
  "startswith s ps = list_ex (\<lambda>p. prefix p s) ps"

definition endswith :: "str \<Rightarrow> str \<Rightarrow> bool" where
  "endswith s suf = suffix suf s"

definition apostrophe :: str where
  "apostrophe = [0x27]"

section \<open>The collaborators, as the code sees them\<close>

text \<open>
  What the microphone and the recogniser do during one call of \<open>record_speech\<close>:
  a recognised text, one of the three exceptions the function names, or any
  other exception raised inside its \<open>try\<close> block (carried with its message).
\<close>

datatype speech_outcome =
    Recognized str
  | WaitTimeoutError
  | UnknownValueError
  | RequestError str
  | OtherException str

text \<open>
  The language-model service: from credential, model name and prompt to the
  response text (\<open>Inr\<close>) or the message of the exception raised (\<open>Inl\<close>).
\<close>

type_synonym genai = "str \<Rightarrow> str \<Rightarrow> str \<Rightarrow> str + str"

text \<open>What writing the audio into the temporary file does: it raises, or it writes bytes.\<close>

datatype save_outcome = SaveError str | Saved bytes

text \<open>\<open>gTTS(text=..., lang='en', slow=False)\<close> raises, or gives an object whose \<open>save\<close> behaves as told.\<close>

datatype gtts_outcome = GttsError str | GttsObject save_outcome

text \<open>
  \<open>pyttsx3.init()\<close> raises, or gives an engine with its list of voice ids and
  the behaviour of \<open>save_to_file\<close> followed by \<open>runAndWait\<close>.
\<close>

datatype pyttsx3_outcome = InitError str | Engine "str list" save_outcome

text \<open>
  What \<open>os.unlink\<close> does with a file that exists: it removes it (\<open>None\<close>), or
  it raises and the file stays (the message of the exception).
\<close>

type_synonym unlink_behaviour = "str \<Rightarrow> str option"

text \<open>
  All of it for one run of the script, together with \<open>str.lower\<close>.
\<close>

record env =
  speech :: speech_outcome
  str_lower :: "str \<Rightarrow> str"
  genai_service :: genai
  gtts_service :: "str \<Rightarrow> gtts_outcome"
  pyttsx3_service :: "str \<Rightarrow> pyttsx3_outcome"
  unlink_service :: unlink_behaviour

section \<open>Session state, temporary files and the trace of calls\<close>

text \<open>
  The value given to \<open>engine.setProperty\<close>: a voice id, an integer, or a
  decimal literal, kept as the number the literal denotes.
\<close>

datatype prop_value = StrVal str | IntVal int | FloatVal real

datatype event =
    SessionSet string str
  | GenCall str
  | TtsCall str str
  | SetProperty string prop_value
  | StError str
  | Unlink str

text \<open>
  The first three fields are \<open>st.session_state\<close> (\<open>audio_file = None\<close>: the key is
  absent). \<open>files\<close> holds the temporary files that exist, with their contents;
  \<open>next_tmp\<close> numbers the names \<open>tempfile\<close> hands out, so that no two are equal;
  \<open>trace\<close> records the calls made, oldest first.
\<close>

record state =
  transcribed_text :: str
  llm_response :: str
  audio_file :: "str option"
  files :: "str \<rightharpoonup> bytes"
  next_tmp :: nat
  trace :: "event list"

definition initial_state :: state where
  "initial_state =
     \<lparr>transcribed_text = [], llm_response = [], audio_file = None,
      files = Map.empty, next_tmp = 0, trace = []\<rparr>"

definition emit :: "event \<Rightarrow> state \<Rightarrow> state" where
  "emit e s = s\<lparr>trace := trace s @ [e]\<rparr>"

definition tmp_name :: "nat \<Rightarrow> str \<Rightarrow> str" where
  "tmp_name n suf = py ''/tmp/tmp'' @ concat (replicate n (py ''x'')) @ suf"

text \<open>\<open>tempfile.NamedTemporaryFile(delete=False, suffix=...)\<close>: a new, empty file that stays.\<close>

definition named_temporary_file :: "str \<Rightarrow> state \<Rightarrow> str \<times> state" where
  "named_temporary_file suf s =
     (let name = tmp_name (next_tmp s) suf
      in (name, s\<lparr>files := (files s)(name \<mapsto> []), next_tmp := Suc (next_tmp s)\<rparr>))"

definition write_file :: "str \<Rightarrow> bytes \<Rightarrow> state \<Rightarrow> state" where
  "write_file name bytes s = s\<lparr>files := (files s)(name \<mapsto> bytes)\<rparr>"

text \<open>
  \<open>os.unlink\<close>: it raises when there is no such file, it raises and leaves
  the file when the system refuses (permissions, a file in use), and it removes
  the file otherwise. The first component is the exception raised, if any; the
  call is traced in every case.
\<close>

definition os_unlink :: "unlink_behaviour \<Rightarrow> str \<Rightarrow> state \<Rightarrow> str option \<times> state" where
  "os_unlink refusal name s =
     (let s1 = emit (Unlink name) s
      in case files s1 name of
           None \<Rightarrow> (Some (py ''FileNotFoundError''), s1)
         | Some _ \<Rightarrow>
             (case refusal name of
                Some exn \<Rightarrow> (Some exn, s1)
              | None \<Rightarrow> (None, s1\<lparr>files := (files s1)(name := None)\<rparr>)))"

section \<open>The functions of voice\_chat\_app.py\<close>

text \<open>
  Each function takes what its collaborators do as an argument and threads the
  state through. The progress messages (\<open>st.info\<close>, the spinners) and the
  one-second pause of the placeholder responder change none of the values
  below and are left out.
\<close>

definition record_speech :: "speech_outcome \<Rightarrow> str + str" where
  "record_speech out =
     (case out of
        Recognized text \<Rightarrow> Inr text
      | WaitTimeoutError \<Rightarrow> Inr (py ''Timeout: No speech detected'')
      | UnknownValueError \<Rightarrow> Inr (py ''Could not understand the audio'')
      | RequestError e \<Rightarrow> Inr (py ''Error with speech recognition service: '' @ e)
      | OtherException e \<Rightarrow> Inl e)"

definition responses_hello :: str where
  "responses_hello = py ''Hello! How can I help you today?''"

definition responses_weather :: str where
  "responses_weather =
     py ''I don'' @ apostrophe @ py ''t have access to current weather data, but I hope it''
       @ apostrophe @ py ''s nice where you are!''"

definition responses_time :: str where
  "responses_time =
     py ''I don'' @ apostrophe @ py ''t have access to real-time data, but you can check your device''
       @ apostrophe @ py ''s clock.''"

definition responses_default :: "str \<Rightarrow> str" where
  "responses_default text =
     py ''I heard you say: '' @ apostrophe @ text @ apostrophe
       @ py ''. Hello, this is a sample response from Gemini AI placeholder.''"

definition get_gemini_response ::
  "(str \<Rightarrow> str) \<Rightarrow> genai \<Rightarrow> str \<Rightarrow> str \<Rightarrow> bool \<Rightarrow> str \<Rightarrow> str" where
  "get_gemini_response lower genai text api_key use_api model_name =
     (if \<not> use_api \<or> api_key = [] then
        (let text_lower = lower text
         in if py_in (py ''hello'') text_lower \<or> py_in (py ''hi'') text_lower then responses_hello
            else if py_in (py ''weather'') text_lower then responses_weather
            else if py_in (py ''time'') text_lower then responses_time
            else responses_default text)
      else
        (case genai api_key model_name text of
           Inr response_text \<Rightarrow> response_text
         | Inl e \<Rightarrow> py ''Error calling Gemini API: '' @ e))"

definition text_to_speech_gtts :: "(str \<Rightarrow> gtts_outcome) \<Rightarrow> str \<Rightarrow> state \<Rightarrow> str option \<times> state" where
  "text_to_speech_gtts gtts text s =
     (case gtts text of
        GttsError e \<Rightarrow> (None, emit (StError (py ''Error generating speech: '' @ e)) s)
      | GttsObject save \<Rightarrow>
          (case named_temporary_file (py ''.mp3'') s of
             (name, s1) \<Rightarrow>
               (case save of
                  SaveError e \<Rightarrow> (None, emit (StError (py ''Error generating speech: '' @ e)) s1)
                | Saved bytes \<Rightarrow> (Some name, write_file name bytes s1))))"

definition text_to_speech_pyttsx3 :: "(str \<Rightarrow> pyttsx3_outcome) \<Rightarrow> str \<Rightarrow> state \<Rightarrow> str option \<times> state" where
  "text_to_speech_pyttsx3 pyttsx3 text s =
     (case pyttsx3 text of
        InitError e \<Rightarrow> (None, emit (StError (py ''Error with pyttsx3: '' @ e)) s)
      | Engine voices save \<Rightarrow>
          (let s1 = (if voices \<noteq> [] then emit (SetProperty ''voice'' (StrVal (hd voices))) s else s);
               s2 = emit (SetProperty ''rate'' (IntVal 150)) s1;
               s3 = emit (SetProperty ''volume'' (FloatVal 0.8)) s2
           in case named_temporary_file (py ''.wav'') s3 of
                (name, s4) \<Rightarrow>
                  (case save of
                     SaveError e \<Rightarrow> (None, emit (StError (py ''Error with pyttsx3: '' @ e)) s4)
                   | Saved bytes \<Rightarrow> (Some name, write_file name bytes s4))))"

subsection \<open>main: configuration\<close>

record config =
  api_key :: str
  use_gemini_api :: bool
  model_selected :: str
  tts_method :: str

definition model_choice :: "config \<Rightarrow> str" where
  "model_choice cfg =
     (if use_gemini_api cfg \<and> api_key cfg \<noteq> [] then model_selected cfg else py ''gemini-pro'')"

subsection \<open>main: the Start Recording button\<close>

definition set_transcribed_text :: "str \<Rightarrow> state \<Rightarrow> state" where
  "set_transcribed_text v s = emit (SessionSet ''transcribed_text'' v) (s\<lparr>transcribed_text := v\<rparr>)"

definition set_llm_response :: "str \<Rightarrow> state \<Rightarrow> state" where
  "set_llm_response v s = emit (SessionSet ''llm_response'' v) (s\<lparr>llm_response := v\<rparr>)"

definition set_audio_file :: "str \<Rightarrow> state \<Rightarrow> state" where
  "set_audio_file v s = emit (SessionSet ''audio_file'' v) (s\<lparr>audio_file := Some v\<rparr>)"

text \<open>Step 3 of the handler: the chosen backend is called on the response.\<close>

definition synthesize :: "env \<Rightarrow> config \<Rightarrow> str \<Rightarrow> state \<Rightarrow> str option \<times> state" where
  "synthesize e cfg response s =
     (let s1 = emit (TtsCall (tts_method cfg) response) s
      in if startswith (tts_method cfg) [py ''Google'']
         then text_to_speech_gtts (gtts_service e) response s1
         else text_to_speech_pyttsx3 (pyttsx3_service e) response s1)"

text \<open>
  The handler of the button. \<open>Inl\<close> is an exception that leaves \<open>main\<close>; the
  session is then as it was, since nothing has been assigned yet.
\<close>

definition start_recording :: "env \<Rightarrow> config \<Rightarrow> state \<Rightarrow> str + state" where
  "start_recording e cfg s =
     (case record_speech (speech e) of
        Inl exn \<Rightarrow> Inl exn
      | Inr transcribed \<Rightarrow>
          (let s1 = set_transcribed_text transcribed s
           in if transcribed \<noteq> [] \<and> \<not> startswith transcribed [py ''Timeout'', py ''Could not'', py ''Error'']
              then
                (let s2 = emit (GenCall transcribed) s1;
                     response = get_gemini_response (str_lower e) (genai_service e) transcribed
                                  (api_key cfg) (use_gemini_api cfg) (model_choice cfg);
                     s3 = set_llm_response response s2
                 in case synthesize e cfg response s3 of
                      (Some audio, s4) \<Rightarrow> Inr (set_audio_file audio s4)
                    | (None, s4) \<Rightarrow> Inr s4)
              else Inr s1))"

subsection \<open>main: the Clear All button\<close>

text \<open>
  The handler of the button. Whatever \<open>os.unlink\<close> raises is swallowed
  (\<open>except: pass\<close>), and the key is deleted whether the file went or not.
\<close>

definition clear_all :: "env \<Rightarrow> state \<Rightarrow> state" where
  "clear_all e s =
     (let s1 = set_transcribed_text [] s;
          s2 = set_llm_response [] s1
      in case audio_file s2 of
           None \<Rightarrow> s2
         | Some name \<Rightarrow>
             (case os_unlink (unlink_service e) name s2 of
                (_, s3) \<Rightarrow> s3\<lparr>audio_file := None\<rparr>))"

subsection \<open>main: the audio player\<close>

definition audio_format :: "str \<Rightarrow> str" where
  "audio_format name = (if endswith name (py ''.mp3'') then py ''audio/mp3'' else py ''audio/wav'')"

text \<open>
  One run of the script with Start Recording pressed, as the session sees it
  afterwards: an exception that leaves \<open>main\<close> ends the run, and the session
  keeps what it held.
\<close>

definition rerun_start :: "env \<Rightarrow> config \<Rightarrow> state \<Rightarrow> state" where
  "rerun_start e cfg s = (case start_recording e cfg s of Inr s' \<Rightarrow> s' | Inl exn \<Rightarrow> s)"

section \<open>The offline responder, in the words of the specification\<close>

text \<open>
  Four rules in priority order. The input is lower-cased as a whole, and a
  keyword matches when it is one of the contiguous pieces of the lower-cased
  input. The rule that fires is the first one in priority order that matches,
  and the default rule matches everything.
\<close>

datatype rule = Greeting | Weather | Time | Default

definition rule_priority :: "rule list" where
  "rule_priority = [Greeting, Weather, Time, Default]"

definition occurs_ci :: "(str \<Rightarrow> str) \<Rightarrow> str \<Rightarrow> str \<Rightarrow> bool" where
  "occurs_ci lower kw text = (kw \<in> set (sublists (lower text)))"

fun rule_matches :: "(str \<Rightarrow> str) \<Rightarrow> rule \<Rightarrow> str \<Rightarrow> bool" where
  "rule_matches lower Greeting text =
     (occurs_ci lower (py ''hello'') text \<or> occurs_ci lower (py ''hi'') text)"
| "rule_matches lower Weather text = occurs_ci lower (py ''weather'') text"
| "rule_matches lower Time text = occurs_ci lower (py ''time'') text"
| "rule_matches lower Default text = True"

definition fires :: "(str \<Rightarrow> str) \<Rightarrow> rule \<Rightarrow> str \<Rightarrow> bool" where
  "fires lower r text = (find (\<lambda>r'. rule_matches lower r' text) rule_priority = Some r)"

fun rule_reply :: "rule \<Rightarrow> str \<Rightarrow> str" where
  "rule_reply Greeting text = responses_hello"
| "rule_reply Weather text = responses_weather"
| "rule_reply Time text = responses_time"
| "rule_reply Default text = responses_default text"

section \<open>Observing a run\<close>

text \<open>The events a step added to the trace, and counts of the calls among them.\<close>

definition turn_events :: "state \<Rightarrow> state \<Rightarrow> event list" where
  "turn_events s s' = drop (length (trace s)) (trace s')"

fun is_gen_call :: "event \<Rightarrow> bool" where
  "is_gen_call (GenCall _) = True"
| "is_gen_call _ = False"

fun is_tts_call :: "event \<Rightarrow> bool" where
  "is_tts_call (TtsCall _ _) = True"
| "is_tts_call _ = False"

fun is_unlink :: "event \<Rightarrow> bool" where
  "is_unlink (Unlink _) = True"
| "is_unlink _ = False"

fun is_session_set :: "event \<Rightarrow> bool" where
  "is_session_set (SessionSet _ _) = True"
| "is_session_set _ = False"

fun is_set_property :: "event \<Rightarrow> bool" where
  "is_set_property (SetProperty _ _) = True"
| "is_set_property _ = False"

fun is_st_error :: "event \<Rightarrow> bool" where
  "is_st_error (StError _) = True"
| "is_st_error _ = False"

definition gen_calls :: "event list \<Rightarrow> nat" where
  "gen_calls evs = length (filter is_gen_call evs)"

definition tts_calls :: "event list \<Rightarrow> nat" where
  "tts_calls evs = length (filter is_tts_call evs)"

text \<open>What the chosen backend writes for a text, when it gets as far as writing.\<close>

definition chosen_backend_output :: "env \<Rightarrow> config \<Rightarrow> str \<Rightarrow> bytes option" where
  "chosen_backend_output e cfg text =
     (if startswith (tts_method cfg) [py ''Google'']
      then (case gtts_service e text of
              GttsObject (Saved bytes) \<Rightarrow> Some bytes
            | _ \<Rightarrow> None)
      else (case pyttsx3_service e text of
              Engine voices (Saved bytes) \<Rightarrow> Some bytes
            | _ \<Rightarrow> None))"

section \<open>Concrete sessions\<close>

text \<open>
  The concrete sessions speak ASCII, and once the letter U+0130 (capital I with
  a dot above). On these characters \<open>str.lower()\<close> works character by
  character: a capital ASCII letter becomes its small letter, U+0130 becomes a
  small i followed by the combining dot U+0307, and every other ASCII character
  stays. \<open>sample_lower\<close> is that function; the sessions below use it for
  \<open>str.lower\<close>.
\<close>

definition lower_codepoint :: "nat \<Rightarrow> str" where
  "lower_codepoint c =
     (if 0x41 \<le> c \<and> c \<le> 0x5A then [c + 0x20]
      else if c = 0x130 then [0x69, 0x307]
      else [c])"

definition sample_lower :: "str \<Rightarrow> str" where
  "sample_lower s = concat (map lower_codepoint s)"

text \<open>
  Stand-in collaborators: the audio written for a text is the text with a tag
  in front, so that a file shows which reply it speaks. \<open>os.unlink\<close> removes
  what it is asked to remove, except in \<open>env_locked\<close>.
\<close>

definition demo_cfg :: config where
  "demo_cfg =
     \<lparr>api_key = [], use_gemini_api = False, model_selected = py ''gemini-pro'',
      tts_method = py ''Google TTS (gTTS) - Online''\<rparr>"

definition live_cfg :: config where
  "live_cfg =
     \<lparr>api_key = py ''key'', use_gemini_api = True, model_selected = py ''gemini-pro'',
      tts_method = py ''Google TTS (gTTS) - Online''\<rparr>"

definition env_hello :: env where
  "env_hello =
     \<lparr>speech = Recognized (py ''Hello there''),
      str_lower = sample_lower,
      genai_service = (\<lambda>key model text. Inr (py ''reply to '' @ text)),
      gtts_service = (\<lambda>text. GttsObject (Saved (py ''mp3:'' @ text))),
      pyttsx3_service = (\<lambda>text. Engine [py ''voice0'', py ''voice1''] (Saved (py ''wav:'' @ text))),
      unlink_service = (\<lambda>name. None)\<rparr>"

definition env_weather :: env where
  "env_weather = env_hello\<lparr>speech := Recognized (py ''What is the WEATHER'')\<rparr>"

definition env_joke :: env where
  "env_joke = env_hello\<lparr>speech := Recognized (py ''Tell me a joke'')\<rparr>"

definition env_silence :: env where
  "env_silence = env_hello\<lparr>speech := WaitTimeoutError\<rparr>"

definition env_no_device :: env where
  "env_no_device = env_hello\<lparr>speech := OtherException (py ''OSError: No Default Input Device Available'')\<rparr>"

definition env_error_word :: env where
  "env_error_word = env_hello\<lparr>speech := Recognized (py ''Error messages are hard to read'')\<rparr>"

definition env_weather_tts_down :: env where
  "env_weather_tts_down =
     env_weather\<lparr>gtts_service := (\<lambda>text. GttsObject (SaveError (py ''gTTSError: connection failed'')))\<rparr>"

definition env_all_down :: env where
  "env_all_down =
     env_joke\<lparr>genai_service := (\<lambda>key model text. Inl (py ''quota exceeded'')),
               gtts_service := (\<lambda>text. GttsObject (SaveError (py ''gTTSError: connection failed'')))\<rparr>"

definition env_genai_down :: env where
  "env_genai_down = env_joke\<lparr>genai_service := (\<lambda>key model text. Inl (py ''quota exceeded''))\<rparr>"

definition env_no_engine :: env where
  "env_no_engine = env_hello\<lparr>pyttsx3_service := (\<lambda>text. InitError (py ''no driver''))\<rparr>"

definition env_locked :: env where
  "env_locked = env_hello\<lparr>unlink_service := (\<lambda>name. Some (py ''PermissionError''))\<rparr>"

definition env_dotted_capital_i :: env where
  "env_dotted_capital_i = env_hello\<lparr>speech := Recognized (py ''H'' @ [0x130])\<rparr>"

section \<open>Facts about strings\<close>

lemma py_in_iff_sublist: "py_in needle hay \<longleftrightarrow> sublist needle hay"
  by (induction hay) (auto simp: sublist_Cons_right)

lemmas str_eval = py_def sample_lower_def lower_codepoint_def

text \<open>Literals are compared, joined and tested for prefixes as they are written.\<close>

lemma py_eq_iff: "py a = py b \<longleftrightarrow> a = b"
  by (simp add: py_def inj_map_eq_map inj_of_char)

lemma py_eq_Nil: "py a = [] \<longleftrightarrow> a = []" "[] = py a \<longleftrightarrow> a = []"
  by (auto simp: py_def)

lemma py_append: "py a @ py b = py (a @ b)" "py a @ py b @ x = py (a @ b) @ x"
  by (simp_all add: py_def)

lemma prefix_py: "prefix (py a) (py b) \<longleftrightarrow> prefix a b"
proof (induction a arbitrary: b)
  case Nil
  show ?case by (simp add: py_def)
next
  case (Cons x a)
  from Cons [unfolded py_def] show ?case
    by (cases b) (simp_all add: py_def)
qed

lemmas py_fold = py_eq_iff py_eq_Nil py_append prefix_py

text \<open>
  The search the code runs on the lower-cased input finds a keyword exactly
  when the keyword is one of the contiguous pieces of the lower-cased input.
\<close>

lemma occurs_ci_eval: "occurs_ci lower kw text = py_in kw (lower text)"
  by (simp add: occurs_ci_def py_in_iff_sublist)

lemma rule_matches_lower_cong:
  "lower text' = lower text \<Longrightarrow> rule_matches lower r text' = rule_matches lower r text"
  by (cases r) (simp_all add: occurs_ci_def)

lemma startswith_failure_prefixes:
  "startswith t [py ''Timeout'', py ''Could not'', py ''Error''] \<longleftrightarrow>
     prefix (py ''Timeout'') t \<or> prefix (py ''Could not'') t \<or> prefix (py ''Error'') t"
  by (simp add: startswith_def)

lemma wav_name:
  "suffix (py ''.wav'') (tmp_name n (py ''.wav''))"
  "audio_format (tmp_name n (py ''.wav'')) = py ''audio/wav''"
  by (simp_all add: tmp_name_def audio_format_def endswith_def suffix_to_prefix py_def)

section \<open>The offline responder\<close>

lemma offline_response:
  assumes "\<not> use \<or> key = []"
  shows "get_gemini_response lower genai text key use model =
           (if rule_matches lower Greeting text then responses_hello
            else if rule_matches lower Weather text then responses_weather
            else if rule_matches lower Time text then responses_time
            else responses_default text)"
  using assms
  by (simp add: get_gemini_response_def Let_def occurs_ci_eval)

lemma fires_unique: "\<exists>!r. fires lower r text"
  by (auto simp: fires_def rule_priority_def)

lemma fires_reply:
  assumes "\<not> use \<or> key = []" and "fires lower r text"
  shows "get_gemini_response lower genai text key use model = rule_reply r text"
  using assms by (auto simp: offline_response fires_def rule_priority_def split: if_splits)

lemma fires_lower_cong:
  assumes "lower t' = lower t"
  shows "fires lower r t' = fires lower r t"
  by (simp add: fires_def rule_priority_def rule_matches_lower_cong [of lower t' t, OF assms])

text \<open>
  C1. In offline mode (the live flag is off, or the credential is empty) exactly
  one of the four rules fires on every input: the first in the order greeting,
  weather, time, default whose keyword occurs somewhere in the lower-cased
  input. The reply is the reply of that rule, and it is the same for every
  service, credential and model name the call is made with. The search does
  not see case: inputs with the same lower-casing fire the same rule. All of
  this holds whatever function \<open>str.lower\<close> is.
\<close>

theorem offline_exactly_one_rule:
  assumes "\<not> use \<or> key = []"
  shows "(\<exists>!r. fires lower r text) \<and>
         (\<forall>r. fires lower r text \<longrightarrow>
              get_gemini_response lower genai text key use model = rule_reply r text) \<and>
         (\<forall>genai' key' use' model'.
              \<not> use' \<or> key' = [] \<longrightarrow>
              get_gemini_response lower genai' text key' use' model' =
              get_gemini_response lower genai text key use model) \<and>
         (\<forall>text' r. lower text' = lower text \<longrightarrow> fires lower r text' = fires lower r text)"
proof (intro conjI allI impI)
  show "\<exists>!r. fires lower r text" by (rule fires_unique)
next
  fix r assume "fires lower r text"
  with assms show "get_gemini_response lower genai text key use model = rule_reply r text"
    by (rule fires_reply)
next
  fix genai' :: genai and key' :: str and use' :: bool and model' :: str
  assume "\<not> use' \<or> key' = []"
  then show "get_gemini_response lower genai' text key' use' model' =
             get_gemini_response lower genai text key use model"
    using assms by (simp only: offline_response)
next
  fix text' :: str and r
  assume "lower text' = lower text"
  then show "fires lower r text' = fires lower r text"
    by (rule fires_lower_cong)
qed

text \<open>
  An input with the weather keyword in capitals, the live flag off and a
  credential present: the weather rule fires.
\<close>

theorem offline_exactly_one_rule_witness:
  "fires sample_lower Weather (py ''What is the WEATHER'') \<and>
   get_gemini_response sample_lower (genai_service env_hello) (py ''What is the WEATHER'')
       (py ''key'') False (py ''gemini-pro'')
     = responses_weather"
proof -
  have off: "\<not> False \<or> py ''key'' = []" by simp
  have f: "fires sample_lower Weather (py ''What is the WEATHER'')"
    by (simp add: fires_def rule_priority_def occurs_ci_eval str_eval)
  from offline_exactly_one_rule
         [OF off, of sample_lower "py ''What is the WEATHER''" "genai_service env_hello" "py ''gemini-pro''"] f
  have "get_gemini_response sample_lower (genai_service env_hello) (py ''What is the WEATHER'')
            (py ''key'') False (py ''gemini-pro'')
          = rule_reply Weather (py ''What is the WEATHER'')"
    by blast
  with f show ?thesis by simp
qed

text \<open>
  The capital I with a dot above lower-cases to a small i and a combining dot,
  so an H followed by it reads hi after lower-casing: the greeting rule fires.
\<close>

lemma dotted_capital_i_is_a_greeting:
  "fires sample_lower Greeting (py ''H'' @ [0x130]) \<and>
   get_gemini_response sample_lower genai (py ''H'' @ [0x130]) [] True model = responses_hello"
  by (simp add: fires_def rule_priority_def occurs_ci_eval get_gemini_response_def str_eval)

text \<open>
  C8. In offline mode, an input that matches none of the greeting, weather and
  time rules (none of the four keywords occurs in the lower-cased input) gets
  the default reply: a fixed sentence with the input inside it between
  apostrophes, character for character as it was given (not lower-cased).
\<close>

theorem offline_default_echoes_input:
  assumes "\<not> use \<or> key = []"
    and "\<not> rule_matches lower Greeting text"
    and "\<not> rule_matches lower Weather text"
    and "\<not> rule_matches lower Time text"
  shows "get_gemini_response lower genai text key use model =
           py ''I heard you say: '' @ [0x27] @ text @ [0x27]
             @ py ''. Hello, this is a sample response from Gemini AI placeholder.'' \<and>
         sublist text (get_gemini_response lower genai text key use model)"
proof -
  have eq: "get_gemini_response lower genai text key use model =
           py ''I heard you say: '' @ [0x27] @ text @ [0x27]
             @ py ''. Hello, this is a sample response from Gemini AI placeholder.''"
    using assms by (simp add: offline_response responses_default_def apostrophe_def)
  then have "sublist text (get_gemini_response lower genai text key use model)"
    unfolding sublist_def by (metis append.assoc)
  with eq show ?thesis by simp
qed

theorem offline_default_echoes_input_witness:
  "get_gemini_response sample_lower (genai_service env_hello) (py ''Tell me a JOKE'') [] True
       (py ''gemini-pro'') =
     py ''I heard you say: '' @ [0x27] @ py ''Tell me a JOKE'' @ [0x27]
       @ py ''. Hello, this is a sample response from Gemini AI placeholder.'' \<and>
   sublist (py ''Tell me a JOKE'')
     (get_gemini_response sample_lower (genai_service env_hello) (py ''Tell me a JOKE'') [] True
        (py ''gemini-pro''))"
proof -
  have off: "\<not> True \<or> ([] :: str) = []" by simp
  have n: "\<not> rule_matches sample_lower Greeting (py ''Tell me a JOKE'')"
    "\<not> rule_matches sample_lower Weather (py ''Tell me a JOKE'')"
    "\<not> rule_matches sample_lower Time (py ''Tell me a JOKE'')"
    by (simp_all add: occurs_ci_eval str_eval)
  show ?thesis
    by (rule offline_default_echoes_input [OF off n])
qed

section \<open>Evaluating concrete sessions\<close>

lemmas env_eval =
  env_hello_def env_weather_def env_joke_def env_silence_def env_no_device_def
  env_error_word_def env_weather_tts_down_def env_all_down_def env_genai_down_def
  env_no_engine_def env_locked_def env_dotted_capital_i_def demo_cfg_def live_cfg_def
  initial_state_def

text \<open>The replies of the responder in the sessions below.\<close>

lemma demo_replies:
  "get_gemini_response sample_lower genai (py ''Hello there'') [] False model = responses_hello"
  "get_gemini_response sample_lower genai (py ''What is the WEATHER'') [] False model
     = responses_weather"
  by (simp_all add: get_gemini_response_def str_eval)

lemma live_response:
  "use \<Longrightarrow> key \<noteq> [] \<Longrightarrow>
   get_gemini_response lower genai text key use model =
     (case genai key model text of
        Inr response_text \<Rightarrow> response_text
      | Inl e \<Rightarrow> py ''Error calling Gemini API: '' @ e)"
  by (simp add: get_gemini_response_def)

lemmas run_eval =
  rerun_start_def start_recording_def record_speech_def synthesize_def
  text_to_speech_gtts_def text_to_speech_pyttsx3_def named_temporary_file_def
  write_file_def tmp_name_def emit_def set_transcribed_text_def set_llm_response_def
  set_audio_file_def startswith_def model_choice_def demo_replies live_response
  clear_all_def os_unlink_def turn_events_def Let_def py_fold

text \<open>The session after one turn in demo mode in which the user said hello.\<close>

lemma after_hello:
  "rerun_start env_hello demo_cfg initial_state =
     \<lparr>transcribed_text = py ''Hello there'', llm_response = responses_hello,
      audio_file = Some (py ''/tmp/tmp.mp3''),
      files = [py ''/tmp/tmp.mp3'' \<mapsto> py ''mp3:'' @ responses_hello], next_tmp = 1,
      trace = [SessionSet ''transcribed_text'' (py ''Hello there''), GenCall (py ''Hello there''),
               SessionSet ''llm_response'' responses_hello,
               TtsCall (py ''Google TTS (gTTS) - Online'') responses_hello,
               SessionSet ''audio_file'' (py ''/tmp/tmp.mp3'')]\<rparr>"
  by (simp add: run_eval env_eval)

section \<open>Turns that stop after capture\<close>

lemma turn_events_append [simp]: "trace s' = trace s @ evs \<Longrightarrow> turn_events s s' = evs"
  by (simp add: turn_events_def)

lemma start_recording_skipped:
  assumes "record_speech (speech e) = Inr t"
    and "t = [] \<or> startswith t [py ''Timeout'', py ''Could not'', py ''Error'']"
  shows "start_recording e cfg s = Inr (set_transcribed_text t s)"
  using assms by (auto simp: start_recording_def Let_def)

lemma set_transcribed_text_fields:
  "transcribed_text (set_transcribed_text t s) = t"
  "llm_response (set_transcribed_text t s) = llm_response s"
  "audio_file (set_transcribed_text t s) = audio_file s"
  "files (set_transcribed_text t s) = files s"
  "trace (set_transcribed_text t s) = trace s @ [SessionSet ''transcribed_text'' t]"
  by (simp_all add: set_transcribed_text_def emit_def)

lemma skipped_turn:
  assumes "record_speech (speech e) = Inr t"
    and "t = [] \<or> startswith t [py ''Timeout'', py ''Could not'', py ''Error'']"
  shows "\<exists>s'. start_recording e cfg s = Inr s' \<and> transcribed_text s' = t \<and>
           llm_response s' = llm_response s \<and> audio_file s' = audio_file s \<and>
           files s' = files s \<and>
           gen_calls (turn_events s s') = 0 \<and> tts_calls (turn_events s s') = 0"
  using start_recording_skipped [OF assms, of cfg s]
  by (simp add: set_transcribed_text_fields gen_calls_def tts_calls_def)

text \<open>The handler looks at the speech step only through the text it returned.\<close>

lemma start_recording_reads_transcript_only:
  "record_speech (speech e') = record_speech (speech e) \<Longrightarrow>
   str_lower e' = str_lower e \<Longrightarrow> genai_service e' = genai_service e \<Longrightarrow> gtts_service e' = gtts_service e \<Longrightarrow>
   pyttsx3_service e' = pyttsx3_service e \<Longrightarrow>
   start_recording e' cfg s = start_recording e cfg s"
  by (simp add: start_recording_def synthesize_def Let_def split: sum.splits)

text \<open>
  C2, as the code has it. A turn whose speech step ends in one of the three
  failures the function names (no speech in the wait window, speech not
  understood, recognition service error) stores the failure message as the
  transcript and calls neither generation nor synthesis. The reply and audio
  fields are not touched: they are empty after the turn exactly when they were
  empty before it.
\<close>

theorem failed_capture_skips_generation_and_synthesis:
  assumes "speech e = WaitTimeoutError \<or> speech e = UnknownValueError \<or> speech e = RequestError d"
  shows "\<exists>s'. start_recording e cfg s = Inr s' \<and>
           record_speech (speech e) = Inr (transcribed_text s') \<and>
           llm_response s' = llm_response s \<and> audio_file s' = audio_file s \<and>
           files s' = files s \<and>
           gen_calls (turn_events s s') = 0 \<and> tts_calls (turn_events s s') = 0"
proof -
  from assms obtain t where t: "record_speech (speech e) = Inr t"
    and "startswith t [py ''Timeout'', py ''Could not'', py ''Error'']"
    by (auto simp: record_speech_def startswith_def py_def)
  then have "t = [] \<or> startswith t [py ''Timeout'', py ''Could not'', py ''Error'']" by simp
  from skipped_turn [OF t this, of cfg s] t show ?thesis by auto
qed

text \<open>On a fresh session a silent turn leaves the reply and the audio unset.\<close>

theorem failed_capture_skips_generation_and_synthesis_witness:
  "\<exists>s'. start_recording env_silence demo_cfg initial_state = Inr s' \<and>
      transcribed_text s' = py ''Timeout: No speech detected'' \<and>
      llm_response s' = [] \<and> audio_file s' = None \<and>
      gen_calls (turn_events initial_state s') = 0 \<and> tts_calls (turn_events initial_state s') = 0"
proof -
  have sp: "speech env_silence = WaitTimeoutError \<or> speech env_silence = UnknownValueError
      \<or> speech env_silence = RequestError []"
    by (simp add: env_eval)
  from failed_capture_skips_generation_and_synthesis [OF sp, of demo_cfg initial_state]
  show ?thesis
    by (auto simp: record_speech_def env_eval)
qed

text \<open>
  After a completed turn, a silent turn leaves the reply and the audio of the
  completed turn in the session, next to the failure transcript.
\<close>

theorem failed_turn_keeps_stale_reply_counterexample:
  "transcribed_text (rerun_start env_silence demo_cfg (rerun_start env_hello demo_cfg initial_state))
     = py ''Timeout: No speech detected'' \<and>
   llm_response (rerun_start env_silence demo_cfg (rerun_start env_hello demo_cfg initial_state))
     = responses_hello \<and>
   audio_file (rerun_start env_silence demo_cfg (rerun_start env_hello demo_cfg initial_state))
     = Some (py ''/tmp/tmp.mp3'')"
  by (simp add: after_hello) (simp add: run_eval env_eval)

text \<open>
  C10. Failure of the speech step is recognised by the text alone. A recognised
  utterance whose text starts with Timeout, Could not or Error is handled as a
  failed turn: the text is stored as the transcript, generation and synthesis
  are not called, reply and audio stay as they were. Any other outcome of the
  speech step that yields the same text is handled identically.
\<close>

theorem prefixed_recognition_treated_as_failure:
  assumes "speech e = Recognized t"
    and "prefix (py ''Timeout'') t \<or> prefix (py ''Could not'') t \<or> prefix (py ''Error'') t"
  shows "(\<exists>s'. start_recording e cfg s = Inr s' \<and> transcribed_text s' = t \<and>
            llm_response s' = llm_response s \<and> audio_file s' = audio_file s \<and>
            files s' = files s \<and>
            gen_calls (turn_events s s') = 0 \<and> tts_calls (turn_events s s') = 0) \<and>
         (\<forall>out. record_speech out = Inr t \<longrightarrow>
            start_recording (e\<lparr>speech := out\<rparr>) cfg s = start_recording e cfg s)"
proof -
  from assms(1) have t: "record_speech (speech e) = Inr t"
    by (simp add: record_speech_def)
  from assms(2) have "t = [] \<or> startswith t [py ''Timeout'', py ''Could not'', py ''Error'']"
    by (simp add: startswith_failure_prefixes)
  from skipped_turn [OF t this]
  have first: "\<exists>s'. start_recording e cfg s = Inr s' \<and> transcribed_text s' = t \<and>
            llm_response s' = llm_response s \<and> audio_file s' = audio_file s \<and>
            files s' = files s \<and>
            gen_calls (turn_events s s') = 0 \<and> tts_calls (turn_events s s') = 0" .
  have "start_recording (e\<lparr>speech := out\<rparr>) cfg s = start_recording e cfg s"
    if "record_speech out = Inr t" for out
    by (rule start_recording_reads_transcript_only) (simp_all add: that t)
  with first show ?thesis by blast
qed

theorem prefixed_recognition_treated_as_failure_witness:
  "\<exists>s'. start_recording env_error_word demo_cfg initial_state = Inr s' \<and>
      transcribed_text s' = py ''Error messages are hard to read'' \<and>
      llm_response s' = [] \<and> audio_file s' = None \<and>
      gen_calls (turn_events initial_state s') = 0 \<and> tts_calls (turn_events initial_state s') = 0"
proof -
  have sp: "speech env_error_word = Recognized (py ''Error messages are hard to read'')"
    by (simp add: env_eval)
  have pre: "prefix (py ''Timeout'') (py ''Error messages are hard to read'') \<or>
      prefix (py ''Could not'') (py ''Error messages are hard to read'') \<or>
      prefix (py ''Error'') (py ''Error messages are hard to read'')"
    by (simp add: py_fold)
  from prefixed_recognition_treated_as_failure [OF sp pre, of demo_cfg initial_state]
  show ?thesis
    by (auto simp: env_eval)
qed

section \<open>Turns that reach generation and synthesis\<close>

text \<open>What synthesis does to the state, by what the chosen backend does.\<close>

lemma synthesize_saved:
  assumes "chosen_backend_output e cfg r = Some bytes"
  shows "\<exists>name s' evs. synthesize e cfg r s = (Some name, s') \<and> files s' name = Some bytes \<and>
           transcribed_text s' = transcribed_text s \<and> llm_response s' = llm_response s \<and>
           audio_file s' = audio_file s \<and> trace s' = trace s @ evs \<and>
           filter is_tts_call evs = [TtsCall (tts_method cfg) r] \<and>
           filter is_session_set evs = [] \<and> filter is_gen_call evs = [] \<and>
           filter is_st_error evs = []"
  using assms
  by (auto simp: chosen_backend_output_def synthesize_def text_to_speech_gtts_def
        text_to_speech_pyttsx3_def named_temporary_file_def write_file_def emit_def Let_def
      split: if_splits gtts_outcome.splits pyttsx3_outcome.splits save_outcome.splits)

lemma synthesize_failed:
  assumes "chosen_backend_output e cfg r = None"
  shows "\<exists>s' evs. synthesize e cfg r s = (None, s') \<and>
           transcribed_text s' = transcribed_text s \<and> llm_response s' = llm_response s \<and>
           audio_file s' = audio_file s \<and> trace s' = trace s @ evs \<and>
           filter is_tts_call evs = [TtsCall (tts_method cfg) r] \<and>
           filter is_session_set evs = [] \<and> filter is_gen_call evs = [] \<and>
           length (filter is_st_error evs) = 1"
  using assms
  by (auto simp: chosen_backend_output_def synthesize_def text_to_speech_gtts_def
        text_to_speech_pyttsx3_def named_temporary_file_def write_file_def emit_def Let_def
      split: if_splits gtts_outcome.splits pyttsx3_outcome.splits save_outcome.splits)


lemma start_recording_accepted:
  assumes "record_speech (speech e) = Inr t" and "t \<noteq> []"
    and "\<not> startswith t [py ''Timeout'', py ''Could not'', py ''Error'']"
  shows "start_recording e cfg s =
           (case synthesize e cfg
                   (get_gemini_response (str_lower e) (genai_service e) t (api_key cfg) (use_gemini_api cfg) (model_choice cfg))
                   (set_llm_response
                      (get_gemini_response (str_lower e) (genai_service e) t (api_key cfg) (use_gemini_api cfg) (model_choice cfg))
                      (emit (GenCall t) (set_transcribed_text t s))) of
              (Some audio, s4) \<Rightarrow> Inr (set_audio_file audio s4)
            | (None, s4) \<Rightarrow> Inr s4)"
  using assms by (simp add: start_recording_def Let_def)

lemma accepted_turn_saved:
  assumes "record_speech (speech e) = Inr t" and "t \<noteq> []"
    and "\<not> startswith t [py ''Timeout'', py ''Could not'', py ''Error'']"
    and "r = get_gemini_response (str_lower e) (genai_service e) t (api_key cfg) (use_gemini_api cfg) (model_choice cfg)"
    and "chosen_backend_output e cfg r = Some bytes"
  shows "\<exists>s' name. start_recording e cfg s = Inr s' \<and> transcribed_text s' = t \<and>
           llm_response s' = r \<and> audio_file s' = Some name \<and> files s' name = Some bytes \<and>
           filter is_session_set (turn_events s s') =
             [SessionSet ''transcribed_text'' t, SessionSet ''llm_response'' r,
              SessionSet ''audio_file'' name] \<and>
           filter is_gen_call (turn_events s s') = [GenCall t] \<and>
           filter is_tts_call (turn_events s s') = [TtsCall (tts_method cfg) r]"
proof -
  define s3 where "s3 = set_llm_response r (emit (GenCall t) (set_transcribed_text t s))"
  from synthesize_saved [OF assms(5), of s3]
  obtain name s4 evs where syn: "synthesize e cfg r s3 = (Some name, s4)"
    and f: "files s4 name = Some bytes" "transcribed_text s4 = transcribed_text s3"
      "llm_response s4 = llm_response s3" "trace s4 = trace s3 @ evs"
      "filter is_tts_call evs = [TtsCall (tts_method cfg) r]"
      "filter is_session_set evs = []" "filter is_gen_call evs = []"
    by blast
  have s3: "transcribed_text s3 = t" "llm_response s3 = r"
    "trace s3 = trace s @ [SessionSet ''transcribed_text'' t, GenCall t, SessionSet ''llm_response'' r]"
    by (simp_all add: s3_def set_llm_response_def set_transcribed_text_def emit_def)
  have run: "start_recording e cfg s = Inr (set_audio_file name s4)"
    using start_recording_accepted [OF assms(1-3), of cfg s] syn
    by (simp add: assms(4) [symmetric] s3_def [symmetric])
  have tr: "trace (set_audio_file name s4) =
              trace s @ ([SessionSet ''transcribed_text'' t, GenCall t, SessionSet ''llm_response'' r]
                @ evs @ [SessionSet ''audio_file'' name])"
    by (simp add: set_audio_file_def emit_def f s3)
  show ?thesis
    apply (rule exI [of _ "set_audio_file name s4"])
    apply (rule exI [of _ name])
    apply (simp only: run turn_events_append [OF tr])
    apply (simp add: f s3)
    apply (simp add: set_audio_file_def emit_def f s3)
    done
qed

lemma accepted_turn_failed:
  assumes "record_speech (speech e) = Inr t" and "t \<noteq> []"
    and "\<not> startswith t [py ''Timeout'', py ''Could not'', py ''Error'']"
    and "r = get_gemini_response (str_lower e) (genai_service e) t (api_key cfg) (use_gemini_api cfg) (model_choice cfg)"
    and "chosen_backend_output e cfg r = None"
  shows "\<exists>s'. start_recording e cfg s = Inr s' \<and> transcribed_text s' = t \<and>
           llm_response s' = r \<and> audio_file s' = audio_file s \<and>
           filter is_session_set (turn_events s s') =
             [SessionSet ''transcribed_text'' t, SessionSet ''llm_response'' r] \<and>
           filter is_gen_call (turn_events s s') = [GenCall t] \<and>
           filter is_tts_call (turn_events s s') = [TtsCall (tts_method cfg) r] \<and>
           length (filter is_st_error (turn_events s s')) = 1"
proof -
  define s3 where "s3 = set_llm_response r (emit (GenCall t) (set_transcribed_text t s))"
  from synthesize_failed [OF assms(5), of s3]
  obtain s4 evs where syn: "synthesize e cfg r s3 = (None, s4)"
    and f: "transcribed_text s4 = transcribed_text s3"
      "llm_response s4 = llm_response s3" "audio_file s4 = audio_file s3"
      "trace s4 = trace s3 @ evs"
      "filter is_tts_call evs = [TtsCall (tts_method cfg) r]"
      "filter is_session_set evs = []" "filter is_gen_call evs = []"
      "length (filter is_st_error evs) = 1"
    by blast
  have s3: "transcribed_text s3 = t" "llm_response s3 = r" "audio_file s3 = audio_file s"
    "trace s3 = trace s @ [SessionSet ''transcribed_text'' t, GenCall t, SessionSet ''llm_response'' r]"
    by (simp_all add: s3_def set_llm_response_def set_transcribed_text_def emit_def)
  have run: "start_recording e cfg s = Inr s4"
    using start_recording_accepted [OF assms(1-3), of cfg s] syn
    by (simp add: assms(4) [symmetric] s3_def [symmetric])
  have tr: "trace s4 =
              trace s @ ([SessionSet ''transcribed_text'' t, GenCall t, SessionSet ''llm_response'' r] @ evs)"
    by (simp add: f s3)
  show ?thesis
    apply (rule exI [of _ s4])
    apply (simp only: run turn_events_append [OF tr])
    apply (simp add: f s3)
    done
qed


text \<open>
  C3, as the code has it. When the language-model call raises, the reply is the
  fixed prefix followed by the failure description, and synthesis is called
  once, on that reply. The session gets an audio file, holding what the backend
  wrote, when the chosen backend gets as far as writing; when the backend fails
  too, the audio field is left as it was.
\<close>

theorem generation_failure_reply_is_synthesized:
  assumes "use_gemini_api cfg" and "api_key cfg \<noteq> []"
    and "speech e = Recognized t" and "t \<noteq> []"
    and "\<not> prefix (py ''Timeout'') t" and "\<not> prefix (py ''Could not'') t" and "\<not> prefix (py ''Error'') t"
    and "genai_service e (api_key cfg) (model_choice cfg) t = Inl d"
  shows "\<exists>s'. start_recording e cfg s = Inr s' \<and>
           llm_response s' = py ''Error calling Gemini API: '' @ d \<and>
           filter is_tts_call (turn_events s s') =
             [TtsCall (tts_method cfg) (py ''Error calling Gemini API: '' @ d)] \<and>
           (case chosen_backend_output e cfg (py ''Error calling Gemini API: '' @ d) of
              Some bytes \<Rightarrow> \<exists>name. audio_file s' = Some name \<and> files s' name = Some bytes
            | None \<Rightarrow> audio_file s' = audio_file s)"
proof -
  let ?r = "py ''Error calling Gemini API: '' @ d"
  have t: "record_speech (speech e) = Inr t"
    using assms(3) by (simp add: record_speech_def)
  have ok: "\<not> startswith t [py ''Timeout'', py ''Could not'', py ''Error'']"
    using assms(5-7) by (simp add: startswith_failure_prefixes)
  have r: "?r = get_gemini_response (str_lower e) (genai_service e) t (api_key cfg) (use_gemini_api cfg) (model_choice cfg)"
    using assms(1,2,8) by (simp add: get_gemini_response_def)
  show ?thesis
  proof (cases "chosen_backend_output e cfg ?r")
    case None
    from accepted_turn_failed [OF t assms(4) ok r None, of s] None show ?thesis
      by auto
  next
    case (Some bytes)
    from accepted_turn_saved [OF t assms(4) ok r Some, of s] Some show ?thesis
      by auto
  qed
qed

theorem generation_failure_reply_is_synthesized_witness:
  "\<exists>s' name. start_recording env_genai_down live_cfg initial_state = Inr s' \<and>
      llm_response s' = py ''Error calling Gemini API: quota exceeded'' \<and>
      audio_file s' = Some name \<and>
      files s' name = Some (py ''mp3:Error calling Gemini API: quota exceeded'')"
proof -
  have "\<exists>s'. start_recording env_genai_down live_cfg initial_state = Inr s' \<and>
           llm_response s' = py ''Error calling Gemini API: '' @ py ''quota exceeded'' \<and>
           filter is_tts_call (turn_events initial_state s') =
             [TtsCall (tts_method live_cfg) (py ''Error calling Gemini API: '' @ py ''quota exceeded'')] \<and>
           (case chosen_backend_output env_genai_down live_cfg (py ''Error calling Gemini API: '' @ py ''quota exceeded'') of
              Some bytes \<Rightarrow> \<exists>name. audio_file s' = Some name \<and> files s' name = Some bytes
            | None \<Rightarrow> audio_file s' = audio_file initial_state)"
    by (rule generation_failure_reply_is_synthesized [where t = "py ''Tell me a joke''"])
       (simp_all add: env_eval model_choice_def py_fold)
  moreover have "chosen_backend_output env_genai_down live_cfg (py ''Error calling Gemini API: '' @ py ''quota exceeded'')
      = Some (py ''mp3:Error calling Gemini API: quota exceeded'')"
    by (simp add: chosen_backend_output_def env_eval startswith_def py_fold)
  ultimately show ?thesis by (auto simp: py_fold)
qed

theorem generation_and_synthesis_failure_counterexample:
  "llm_response (rerun_start env_all_down live_cfg initial_state)
     = py ''Error calling Gemini API: quota exceeded'' \<and>
   tts_calls (trace (rerun_start env_all_down live_cfg initial_state)) = 1 \<and>
   audio_file (rerun_start env_all_down live_cfg initial_state) = None"
  by (simp add: run_eval env_eval tts_calls_def)

text \<open>
  C5, as the code has it. A turn that gets past capture assigns the session
  fields one after the other, transcript, then reply, then audio. When the
  backend writes its audio, all three fields belong to this turn: the reply is
  the generation on this transcript and the audio file holds the synthesis of
  this reply. When the backend fails there is no third assignment, and the audio
  field keeps the value it had.
\<close>

theorem turn_writes_transcript_reply_audio_in_order:
  assumes "speech e = Recognized t" and "t \<noteq> []"
    and "\<not> prefix (py ''Timeout'') t" and "\<not> prefix (py ''Could not'') t" and "\<not> prefix (py ''Error'') t"
    and "r = get_gemini_response (str_lower e) (genai_service e) t (api_key cfg) (use_gemini_api cfg) (model_choice cfg)"
  shows "\<exists>s'. start_recording e cfg s = Inr s' \<and> transcribed_text s' = t \<and> llm_response s' = r \<and>
           (case chosen_backend_output e cfg r of
              Some bytes \<Rightarrow>
                (\<exists>name. audio_file s' = Some name \<and> files s' name = Some bytes \<and>
                   filter is_session_set (turn_events s s') =
                     [SessionSet ''transcribed_text'' t, SessionSet ''llm_response'' r,
                      SessionSet ''audio_file'' name])
            | None \<Rightarrow>
                audio_file s' = audio_file s \<and>
                filter is_session_set (turn_events s s') =
                  [SessionSet ''transcribed_text'' t, SessionSet ''llm_response'' r])"
proof -
  have t: "record_speech (speech e) = Inr t"
    using assms(1) by (simp add: record_speech_def)
  have ok: "\<not> startswith t [py ''Timeout'', py ''Could not'', py ''Error'']"
    using assms(3-5) by (simp add: startswith_failure_prefixes)
  show ?thesis
  proof (cases "chosen_backend_output e cfg r")
    case None
    from accepted_turn_failed [OF t assms(2) ok assms(6) None, of s] None show ?thesis
      by auto
  next
    case (Some bytes)
    from accepted_turn_saved [OF t assms(2) ok assms(6) Some, of s] Some show ?thesis
      by auto
  qed
qed

theorem turn_writes_transcript_reply_audio_in_order_witness:
  "\<exists>s' name. start_recording env_weather demo_cfg initial_state = Inr s' \<and>
      transcribed_text s' = py ''What is the WEATHER'' \<and> llm_response s' = responses_weather \<and>
      audio_file s' = Some name \<and> files s' name = Some (py ''mp3:'' @ responses_weather) \<and>
      filter is_session_set (turn_events initial_state s') =
        [SessionSet ''transcribed_text'' (py ''What is the WEATHER''),
         SessionSet ''llm_response'' responses_weather, SessionSet ''audio_file'' name]"
proof -
  have r: "responses_weather =
      get_gemini_response (str_lower env_weather) (genai_service env_weather) (py ''What is the WEATHER'') (api_key demo_cfg)
        (use_gemini_api demo_cfg) (model_choice demo_cfg)"
    by (simp add: env_eval demo_replies)
  have out: "chosen_backend_output env_weather demo_cfg responses_weather
      = Some (py ''mp3:'' @ responses_weather)"
    by (simp add: chosen_backend_output_def env_eval startswith_def py_fold)
  have sp: "speech env_weather = Recognized (py ''What is the WEATHER'')"
    by (simp add: env_eval)
  from turn_writes_transcript_reply_audio_in_order [OF sp _ _ _ _ r, of initial_state]
  show ?thesis
    by (simp add: out py_fold)
qed

text \<open>
  Two turns in demo mode: hello, then a question about the weather during which
  the speech backend fails. The reply in the session is the weather reply of
  the second turn; the audio file is still the one of the first turn, speaking
  the greeting.
\<close>

lemma after_weather_tts_down:
  "rerun_start env_weather_tts_down demo_cfg (rerun_start env_hello demo_cfg initial_state) =
     \<lparr>transcribed_text = py ''What is the WEATHER'', llm_response = responses_weather,
      audio_file = Some (py ''/tmp/tmp.mp3''),
      files = [py ''/tmp/tmp.mp3'' \<mapsto> py ''mp3:'' @ responses_hello, py ''/tmp/tmpx.mp3'' \<mapsto> []],
      next_tmp = 2,
      trace = [SessionSet ''transcribed_text'' (py ''Hello there''), GenCall (py ''Hello there''),
               SessionSet ''llm_response'' responses_hello,
               TtsCall (py ''Google TTS (gTTS) - Online'') responses_hello,
               SessionSet ''audio_file'' (py ''/tmp/tmp.mp3''),
               SessionSet ''transcribed_text'' (py ''What is the WEATHER''),
               GenCall (py ''What is the WEATHER''),
               SessionSet ''llm_response'' responses_weather,
               TtsCall (py ''Google TTS (gTTS) - Online'') responses_weather,
               StError (py ''Error generating speech: gTTSError: connection failed'')]\<rparr>"
  by (simp add: after_hello) (simp add: run_eval env_eval)

theorem reply_and_audio_from_different_turns_counterexample:
  "llm_response (rerun_start env_weather_tts_down demo_cfg (rerun_start env_hello demo_cfg initial_state))
     = responses_weather \<and>
   audio_file (rerun_start env_weather_tts_down demo_cfg (rerun_start env_hello demo_cfg initial_state))
     = Some (py ''/tmp/tmp.mp3'') \<and>
   files (rerun_start env_weather_tts_down demo_cfg (rerun_start env_hello demo_cfg initial_state))
     (py ''/tmp/tmp.mp3'') = Some (py ''mp3:'' @ responses_hello)"
  by (simp add: after_weather_tts_down py_fold)

section \<open>The lifetime of the audio file\<close>

text \<open>
  No turn removes a file: the handler of Start Recording never calls unlink,
  and every file that existed before the turn exists after it.
\<close>

lemma synthesize_never_unlinks:
  "synthesize e cfg r s = (a, s') \<Longrightarrow>
     \<exists>evs. trace s' = trace s @ evs \<and> filter is_unlink evs = [] \<and>
       (\<forall>name. files s name \<noteq> None \<longrightarrow> files s' name \<noteq> None)"
  by (auto simp: synthesize_def text_to_speech_gtts_def text_to_speech_pyttsx3_def
        named_temporary_file_def write_file_def emit_def Let_def
      split: if_splits gtts_outcome.splits pyttsx3_outcome.splits save_outcome.splits)

lemma start_recording_never_unlinks:
  assumes "start_recording e cfg s = Inr s'"
  shows "filter is_unlink (turn_events s s') = [] \<and>
         (\<forall>name. files s name \<noteq> None \<longrightarrow> files s' name \<noteq> None)"
proof (cases "record_speech (speech e)")
  case (Inl x)
  with assms show ?thesis by (simp add: start_recording_def)
next
  case (Inr t)
  show ?thesis
  proof (cases "t \<noteq> [] \<and> \<not> startswith t [py ''Timeout'', py ''Could not'', py ''Error'']")
    case False
    with Inr assms have "s' = set_transcribed_text t s"
      by (auto simp: start_recording_def Let_def)
    then show ?thesis
      by (simp add: set_transcribed_text_def emit_def turn_events_def)
  next
    case True
    define r where "r = get_gemini_response (str_lower e) (genai_service e) t (api_key cfg) (use_gemini_api cfg) (model_choice cfg)"
    define s3 where "s3 = set_llm_response r (emit (GenCall t) (set_transcribed_text t s))"
    obtain a s4 where syn: "synthesize e cfg r s3 = (a, s4)"
      by (cases "synthesize e cfg r s3")
    from synthesize_never_unlinks [OF syn]
    obtain evs where evs: "trace s4 = trace s3 @ evs" "filter is_unlink evs = []"
      and keep: "\<forall>name. files s3 name \<noteq> None \<longrightarrow> files s4 name \<noteq> None"
      by blast
    have s3: "files s3 = files s"
      "trace s3 = trace s @ [SessionSet ''transcribed_text'' t, GenCall t, SessionSet ''llm_response'' r]"
      by (simp_all add: s3_def set_llm_response_def set_transcribed_text_def emit_def)
    have s': "s' = (case a of Some audio \<Rightarrow> set_audio_file audio s4 | None \<Rightarrow> s4)"
      using assms Inr True syn
      by (simp add: start_recording_def Let_def r_def [symmetric] s3_def [symmetric]
            split: option.splits)
    show ?thesis
      using evs keep s3
      by (cases a) (simp_all add: s' set_audio_file_def emit_def turn_events_def)
  qed
qed

text \<open>
  C4. Two completed turns in demo mode, hello and then the weather. The session
  ends up pointing at the file of the second turn, the file of the first turn
  still exists with its audio in it, and the trace has no call of unlink: the
  handler replaces the handle and never removes the file it replaced.
\<close>

theorem second_turn_leaks_first_audio_file:
  "audio_file (rerun_start env_weather demo_cfg (rerun_start env_hello demo_cfg initial_state))
     = Some (py ''/tmp/tmpx.mp3'') \<and>
   files (rerun_start env_weather demo_cfg (rerun_start env_hello demo_cfg initial_state))
     (py ''/tmp/tmp.mp3'') = Some (py ''mp3:'' @ responses_hello) \<and>
   filter is_unlink (trace (rerun_start env_weather demo_cfg (rerun_start env_hello demo_cfg initial_state)))
     = []"
  by (simp add: after_hello) (simp add: run_eval env_eval)

text \<open>What Clear All does, by whether the session holds an audio file.\<close>

lemma clear_all_without_audio:
  assumes "audio_file s = None"
  shows "clear_all e s = set_llm_response [] (set_transcribed_text [] s)"
  using assms
  by (simp add: clear_all_def set_transcribed_text_def set_llm_response_def emit_def Let_def)

lemma clear_all_with_audio:
  assumes "audio_file s = Some name"
  shows "transcribed_text (clear_all e s) = []" "llm_response (clear_all e s) = []"
    "audio_file (clear_all e s) = None"
    "trace (clear_all e s) =
       trace s @ [SessionSet ''transcribed_text'' [], SessionSet ''llm_response'' [], Unlink name]"
    "files (clear_all e s) =
       (if files s name = None \<or> unlink_service e name \<noteq> None then files s
        else (files s)(name := None))"
proof -
  define s2 where "s2 = set_llm_response [] (set_transcribed_text [] s)"
  have s2: "audio_file s2 = Some name" "files s2 = files s"
    "trace s2 = trace s @ [SessionSet ''transcribed_text'' [], SessionSet ''llm_response'' []]"
    "transcribed_text s2 = []" "llm_response s2 = []"
    using assms by (simp_all add: s2_def set_transcribed_text_def set_llm_response_def emit_def)
  have c: "clear_all e s = (snd (os_unlink (unlink_service e) name s2))\<lparr>audio_file := None\<rparr>"
    using s2(1) by (simp add: clear_all_def Let_def s2_def [symmetric] split: prod.splits)
  show "transcribed_text (clear_all e s) = []" "llm_response (clear_all e s) = []"
    "audio_file (clear_all e s) = None"
    "trace (clear_all e s) =
       trace s @ [SessionSet ''transcribed_text'' [], SessionSet ''llm_response'' [], Unlink name]"
    "files (clear_all e s) =
       (if files s name = None \<or> unlink_service e name \<noteq> None then files s
        else (files s)(name := None))"
    unfolding c
    by (cases "files s name"; cases "unlink_service e name";
        simp add: os_unlink_def emit_def Let_def s2)+
qed

text \<open>
  C6, as the code has it. Clear All leaves transcript and reply empty and the
  audio key absent. When the session held an audio file, unlink is called on it
  exactly once and on no other file; when it held none, unlink is not called;
  a second Clear All calls unlink no more. The file is gone afterwards when it
  was already missing or when unlink removes it. When unlink raises on the
  existing file, the exception is swallowed and the file stays as it was, with
  no key left in the session that names it.
\<close>

theorem clear_all_empties_session_and_unlinks_once:
  "transcribed_text (clear_all e s) = [] \<and> llm_response (clear_all e s) = [] \<and>
   audio_file (clear_all e s) = None \<and>
   (case audio_file s of
      Some name \<Rightarrow>
        filter is_unlink (turn_events s (clear_all e s)) = [Unlink name] \<and>
        files (clear_all e s) name =
          (if files s name = None \<or> unlink_service e name = None then None else files s name)
    | None \<Rightarrow> filter is_unlink (turn_events s (clear_all e s)) = []) \<and>
   filter is_unlink (turn_events (clear_all e s) (clear_all e' (clear_all e s))) = []"
proof -
  have again: "filter is_unlink (turn_events s1 (clear_all e1 s1)) = []"
    if "audio_file s1 = None" for s1 e1
    by (simp add: clear_all_without_audio [OF that] set_transcribed_text_def
          set_llm_response_def emit_def turn_events_def)
  show ?thesis
  proof (cases "audio_file s")
    case None
    then have "audio_file (clear_all e s) = None" "transcribed_text (clear_all e s) = []"
      "llm_response (clear_all e s) = []"
      by (simp_all add: clear_all_without_audio set_transcribed_text_def set_llm_response_def emit_def)
    with None again [of s e] again [of "clear_all e s" e'] show ?thesis by simp
  next
    case (Some name)
    note f = clear_all_with_audio [OF Some, of e]
    have "filter is_unlink (turn_events s (clear_all e s)) = [Unlink name]"
      by (simp add: turn_events_def f(4))
    moreover have "files (clear_all e s) name =
          (if files s name = None \<or> unlink_service e name = None then None else files s name)"
      by (simp add: f(5))
    ultimately show ?thesis
      using Some f(1-3) again [of "clear_all e s" e'] by simp
  qed
qed

text \<open>Clear All after the completed hello turn: its audio file is removed, once.\<close>

theorem clear_all_empties_session_and_unlinks_once_witness:
  "files (rerun_start env_hello demo_cfg initial_state) (py ''/tmp/tmp.mp3'')
     = Some (py ''mp3:'' @ responses_hello) \<and>
   transcribed_text (clear_all env_hello (rerun_start env_hello demo_cfg initial_state)) = [] \<and>
   llm_response (clear_all env_hello (rerun_start env_hello demo_cfg initial_state)) = [] \<and>
   audio_file (clear_all env_hello (rerun_start env_hello demo_cfg initial_state)) = None \<and>
   files (clear_all env_hello (rerun_start env_hello demo_cfg initial_state)) (py ''/tmp/tmp.mp3'')
     = None \<and>
   filter is_unlink (turn_events (rerun_start env_hello demo_cfg initial_state)
                       (clear_all env_hello (rerun_start env_hello demo_cfg initial_state)))
     = [Unlink (py ''/tmp/tmp.mp3'')]"
  using clear_all_empties_session_and_unlinks_once
          [of env_hello "rerun_start env_hello demo_cfg initial_state" env_hello]
  by (simp add: after_hello) (simp add: env_eval)

text \<open>
  Clear All after the completed hello turn, while the system refuses to remove
  the file: the session is empty, and the audio file is still there.
\<close>

theorem clear_all_keeps_locked_file_counterexample:
  "audio_file (clear_all env_locked (rerun_start env_hello demo_cfg initial_state)) = None \<and>
   files (clear_all env_locked (rerun_start env_hello demo_cfg initial_state)) (py ''/tmp/tmp.mp3'')
     = Some (py ''mp3:'' @ responses_hello)"
  by (simp add: after_hello)
     (simp add: clear_all_def os_unlink_def set_transcribed_text_def set_llm_response_def
        emit_def env_eval)

section \<open>Exceptions that leave the handler\<close>

text \<open>
  The only exception that leaves the handler of Start Recording is one raised
  during capture that \<open>record_speech\<close> has no clause for.
\<close>

lemma start_recording_raises_iff:
  "start_recording e cfg s = Inl x \<longleftrightarrow> speech e = OtherException x"
  by (cases "speech e")
     (auto simp: start_recording_def record_speech_def Let_def split: prod.splits option.splits)

text \<open>
  C7. A microphone that cannot be opened raises an exception that is none of
  the three \<open>record_speech\<close> handles: it leaves \<open>record_speech\<close> and then
  \<open>main\<close>, with no message made of it.
\<close>

theorem device_error_leaves_main_uncaught:
  "record_speech (speech env_no_device) = Inl (py ''OSError: No Default Input Device Available'') \<and>
   start_recording env_no_device demo_cfg initial_state
     = Inl (py ''OSError: No Default Input Device Available'')"
  by (simp add: start_recording_def record_speech_def env_eval)

section \<open>The local speech engine\<close>

text \<open>
  When the engine fails to initialise, the function reports the error and
  returns nothing: no property is set and no file is made.
\<close>

lemma pyttsx3_init_error:
  assumes "pyttsx3 text = InitError d"
  shows "text_to_speech_pyttsx3 pyttsx3 text s =
           (None, emit (StError (py ''Error with pyttsx3: '' @ d)) s)"
  using assms by (simp add: text_to_speech_pyttsx3_def)

lemma no_engine_result:
  "text_to_speech_pyttsx3 (pyttsx3_service env_no_engine) (py ''Hello'') s =
     (None, emit (StError (py ''Error with pyttsx3: no driver'')) s)"
  by (simp add: text_to_speech_pyttsx3_def env_no_engine_def env_hello_def py_append)

text \<open>
  C9, as the code has it. Once the engine has initialised, the properties set
  on it are the rate 150 and the volume 0.8, preceded by the first voice when
  the engine lists any voice, and nothing else. When saving then succeeds, the
  result is a temporary file whose name ends in .wav, which the player tags
  audio/wav, holding what the engine wrote; when saving fails there is no result.
\<close>

theorem pyttsx3_engine_gets_fixed_defaults:
  assumes "pyttsx3 text = Engine voices save"
  shows "\<exists>a s'. text_to_speech_pyttsx3 pyttsx3 text s = (a, s') \<and>
           filter is_set_property (turn_events s s') =
             (if voices = [] then [] else [SetProperty ''voice'' (StrVal (hd voices))])
               @ [SetProperty ''rate'' (IntVal 150), SetProperty ''volume'' (FloatVal 0.8)] \<and>
           (case save of
              Saved bytes \<Rightarrow>
                (\<exists>name. a = Some name \<and> suffix (py ''.wav'') name \<and>
                   audio_format name = py ''audio/wav'' \<and> files s' name = Some bytes)
            | SaveError d \<Rightarrow> a = None)"
  using assms
  by (cases save)
     (simp_all add: text_to_speech_pyttsx3_def named_temporary_file_def write_file_def
        emit_def turn_events_def Let_def wav_name)

theorem pyttsx3_engine_gets_fixed_defaults_witness:
  "\<exists>a s' name. text_to_speech_pyttsx3 (pyttsx3_service env_hello) (py ''Hello'') initial_state = (a, s') \<and>
      filter is_set_property (turn_events initial_state s') =
        [SetProperty ''voice'' (StrVal (py ''voice0'')), SetProperty ''rate'' (IntVal 150),
         SetProperty ''volume'' (FloatVal 0.8)] \<and>
      a = Some name \<and> audio_format name = py ''audio/wav'' \<and> files s' name = Some (py ''wav:Hello'')"
proof -
  have eng: "pyttsx3_service env_hello (py ''Hello'') = Engine [py ''voice0'', py ''voice1''] (Saved (py ''wav:Hello''))"
    by (simp add: env_eval py_fold)
  from pyttsx3_engine_gets_fixed_defaults
         [of "pyttsx3_service env_hello" "py ''Hello''" _ _ initial_state, OF eng]
  show ?thesis
    by auto
qed

theorem pyttsx3_without_engine_counterexample:
  "fst (text_to_speech_pyttsx3 (pyttsx3_service env_no_engine) (py ''Hello'') initial_state) = None \<and>
   trace (snd (text_to_speech_pyttsx3 (pyttsx3_service env_no_engine) (py ''Hello'') initial_state))
     = [StError (py ''Error with pyttsx3: no driver'')] \<and>
   files (snd (text_to_speech_pyttsx3 (pyttsx3_service env_no_engine) (py ''Hello'') initial_state))
     = Map.empty"
  by (simp add: no_engine_result emit_def initial_state_def)

end
